theory Spec2Isabelle
  imports Main
begin

section \<open>Python values shared by the endpoints\<close>

text \<open>
  A Python \<open>str\<close> is modelled by the list of bytes of its UTF-8 encoding, a
  \<open>bytes\<close> object by the list of its bytes; both are HOL strings.
\<close>

type_synonym bytes = string

subsection \<open>The process environment and dictionary objects\<close>

text \<open>
  \<open>os.environ\<close> is a mutable global object and \<open>os.environ.copy()\<close> allocates a
  new dictionary. The store keeps the global apart from the dictionaries allocated
  later, so that a write through one reference is visible exactly through its aliases.
\<close>

type_synonym env = "string \<rightharpoonup> string"

datatype ref = Environ | Obj nat

record pystate =
  environ :: env
  objs :: "env list"

definition deref :: "pystate \<Rightarrow> ref \<Rightarrow> env option" where
  "deref st r =
     (case r of
        Environ \<Rightarrow> Some (environ st)
      | Obj n \<Rightarrow> (if n < length (objs st) then Some (objs st ! n) else None))"

definition environ_copy :: "pystate \<Rightarrow> ref \<times> pystate" where
  "environ_copy st = (Obj (length (objs st)), st\<lparr>objs := objs st @ [environ st]\<rparr>)"

definition setdefault :: "ref \<Rightarrow> string \<Rightarrow> string \<Rightarrow> pystate \<Rightarrow> pystate" where
  "setdefault r k v st =
     (case r of
        Environ \<Rightarrow>
          (if environ st k = None then st\<lparr>environ := (environ st)(k \<mapsto> v)\<rparr> else st)
      | Obj n \<Rightarrow>
          (if n < length (objs st) \<and> (objs st ! n) k = None
           then st\<lparr>objs := (objs st)[n := (objs st ! n)(k \<mapsto> v)]\<rparr>
           else st))"

text \<open>
  \<^verbatim>\<open>
  def _build_ansible_env() -> Dict[str, str]:
      env = os.environ.copy()
      env.setdefault("ANSIBLE_FORCE_COLOR", "0")
      env.setdefault("ANSIBLE_HOST_KEY_CHECKING", "False")
      return env
  \<close>
\<close>

definition build_ansible_env :: "pystate \<Rightarrow> ref \<times> pystate" where
  "build_ansible_env st =
     (let (env, st1) = environ_copy st;
          st2 = setdefault env ''ANSIBLE_FORCE_COLOR'' ''0'' st1;
          st3 = setdefault env ''ANSIBLE_HOST_KEY_CHECKING'' ''False'' st2
      in (env, st3))"

subsection \<open>Text\<close>

definition byte :: "char \<Rightarrow> nat" where
  "byte c = of_char c"

definition cont :: "char \<Rightarrow> bool" where
  "cont c = (0x80 \<le> byte c \<and> byte c \<le> 0xBF)"

text \<open>
  \<open>bytes.decode()\<close> is the strict UTF-8 codec: it accepts the well-formed sequences
  (no overlong form, no surrogate, nothing above U+10FFFF) and raises
  \<open>UnicodeDecodeError\<close> on anything else.
\<close>

fun utf8_valid :: "bytes \<Rightarrow> bool" where
  "utf8_valid [] = True"
| "utf8_valid (c # cs) =
     (if byte c < 0x80 then utf8_valid cs
      else if byte c < 0xC2 then False
      else if byte c < 0xE0 then
        (case cs of c1 # r \<Rightarrow> cont c1 \<and> utf8_valid r | _ \<Rightarrow> False)
      else if byte c < 0xF0 then
        (case cs of
           c1 # c2 # r \<Rightarrow>
             cont c1 \<and> (if byte c = 0xE0 then 0xA0 \<le> byte c1 else True) \<and>
             (if byte c = 0xED then byte c1 < 0xA0 else True) \<and> cont c2 \<and> utf8_valid r
         | _ \<Rightarrow> False)
      else if byte c < 0xF5 then
        (case cs of
           c1 # c2 # c3 # r \<Rightarrow>
             cont c1 \<and> (if byte c = 0xF0 then 0x90 \<le> byte c1 else True) \<and>
             (if byte c = 0xF4 then byte c1 < 0x90 else True) \<and> cont c2 \<and> cont c3 \<and>
             utf8_valid r
         | _ \<Rightarrow> False)
      else False)"

text \<open>
  An exception is the codec's, carrying the bytes it rejected, or one of two raised on
  a path of the file system, carrying the path, or any other raised by the operating
  system or the library, known by its class name and its \<open>str()\<close>.
\<close>

datatype py_exception =
    UnicodeDecodeError bytes
  | FileExistsError string
  | IsADirectoryError string
  | Raised string string

definition decode :: "bytes \<Rightarrow> py_exception + string" where
  "decode bs = (if utf8_valid bs then Inr bs else Inl (UnicodeDecodeError bs))"

text \<open>\<open>str(n)\<close> of a Python integer: decimal digits, a minus sign when negative.\<close>

fun digits :: "nat \<Rightarrow> string" where
  "digits n =
     (if n < 10 then [''0123456789'' ! n]
      else digits (n div 10) @ [''0123456789'' ! (n mod 10)])"

definition py_str_int :: "int \<Rightarrow> string" where
  "py_str_int i = (if i < 0 then CHR ''-'' # digits (nat (- i)) else digits (nat i))"

text \<open>The values a result dictionary holds; a dictionary literal keeps its keys in order.\<close>

datatype py_value = PyStr string | PyInt int | PyBool bool | PyNone

type_synonym py_dict = "(string \<times> py_value) list"

subsection \<open>Child processes as the endpoints see them\<close>

text \<open>
  What the operating system does is a parameter of the model. Launching a command
  (\<open>asyncio.create_subprocess_exec\<close>) either raises or gives a child; the second
  argument is the \<open>env=\<close> passed, \<open>None\<close> when the child inherits the environment.
\<close>

type_synonym 'child launcher = "string list \<Rightarrow> env option \<Rightarrow> py_exception + 'child"

text \<open>The operations an endpoint performs on processes, in the order it performs them.\<close>

datatype proc_action =
    Spawn "string list" "env option"
  | WaitForCommunicate int
  | Communicate
  | ReadLine
  | Wait
  | Kill

section \<open>The bounded process runner\<close>

text \<open>
  \<open>proc.communicate()\<close> reads stdout and stderr to end of file and then waits for the
  exit of the child; \<open>asyncio.wait_for\<close> lets it run for the bound and raises
  \<open>TimeoutError\<close> when it has not completed by then. A pipe reaches end of file when
  every process holding its write end has closed it, which a child that has exited does
  not ensure. Whether the child has exited within a bound, and whether its pipes have
  reached end of file within it, is the child's behaviour. After \<open>kill()\<close> the second
  \<open>communicate()\<close>, which has no bound, returns what it drained once the pipes reach end
  of file, or never returns.
\<close>

datatype bounded_wait = Finished bytes bytes int | Elapsed

record runner_child =
  exits_within :: "int \<Rightarrow> bool"
  pipes_closed_within :: "int \<Rightarrow> bool"
  captured :: "bytes \<times> bytes"
  exit_status :: int
  communicate_after_kill :: "(bytes \<times> bytes) option"

definition wait_for_communicate :: "runner_child \<Rightarrow> int \<Rightarrow> bounded_wait" where
  "wait_for_communicate proc timeout =
     (if exits_within proc timeout \<and> pipes_closed_within proc timeout
      then Finished (fst (captured proc)) (snd (captured proc)) (exit_status proc)
      else Elapsed)"

definition DEFAULT_TIMEOUT :: int where
  "DEFAULT_TIMEOUT = 60"

text \<open>
  \<^verbatim>\<open>
  async def run_ansible_command(cmd, timeout=DEFAULT_TIMEOUT):
      """
      Execute an Ansible CLI command with default environment and timeout protection.
      """
      proc = await asyncio.create_subprocess_exec(
          *cmd, stdout=PIPE, stderr=PIPE, env=_build_ansible_env())
      try:
          stdout, stderr = await asyncio.wait_for(proc.communicate(), timeout)
          return {"stdout": stdout.decode(), "stderr": stderr.decode(),
                  "returncode": proc.returncode}
      except asyncio.TimeoutError:
          proc.kill()
          await proc.communicate()
          return {"stdout": "", "stderr": f"Command timed out after {timeout}s",
                  "returncode": None, "timeout": True}
  \<close>
  The result is \<open>None\<close> when the call never returns, else the value returned or the
  exception raised; with it, the process operations performed and the store after them.
\<close>

definition run_ansible_command ::
  "runner_child launcher \<Rightarrow> string list \<Rightarrow> int \<Rightarrow> pystate \<Rightarrow>
     (py_exception + py_dict) option \<times> proc_action list \<times> pystate" where
  "run_ansible_command os cmd timeout st =
     (let (env, st') = build_ansible_env st;
          spawn = Spawn cmd (deref st' env)
      in case os cmd (deref st' env) of
           Inl e \<Rightarrow> (Some (Inl e), [spawn], st')
         | Inr proc \<Rightarrow>
             (case wait_for_communicate proc timeout of
                Finished out err rc \<Rightarrow>
                  (case decode out of
                     Inl e \<Rightarrow> (Some (Inl e), [spawn, WaitForCommunicate timeout], st')
                   | Inr stdout \<Rightarrow>
                       (case decode err of
                          Inl e \<Rightarrow> (Some (Inl e), [spawn, WaitForCommunicate timeout], st')
                        | Inr stderr \<Rightarrow>
                            (Some (Inr [(''stdout'', PyStr stdout), (''stderr'', PyStr stderr),
                                        (''returncode'', PyInt rc)]),
                             [spawn, WaitForCommunicate timeout], st')))
              | Elapsed \<Rightarrow>
                  (case communicate_after_kill proc of
                     None \<Rightarrow>
                       (None, [spawn, WaitForCommunicate timeout, Kill, Communicate], st')
                   | Some (_, _) \<Rightarrow>
                       (Some (Inr [(''stdout'', PyStr []),
                                   (''stderr'',
                                    PyStr (''Command timed out after '' @ py_str_int timeout
                                           @ ''s'')),
                                   (''returncode'', PyNone), (''timeout'', PyBool True)]),
                        [spawn, WaitForCommunicate timeout, Kill, Communicate], st'))))"

text \<open>
  How a caller reads the optional \<open>timeout\<close> key of a result: the flag is set when the
  key is present with the value \<open>True\<close>.
\<close>

definition timed_out :: "py_dict \<Rightarrow> bool" where
  "timed_out d = (map_of d ''timeout'' = Some (PyBool True))"

section \<open>The streaming process relay\<close>

subsection \<open>Whitespace\<close>

text \<open>
  \<open>str.rstrip()\<close> and \<open>str.strip()\<close> remove the characters Python calls whitespace:
  U+0009 to U+000D, U+001C to U+0020, U+0085, U+00A0, U+1680, U+2000 to U+200A, U+2028,
  U+2029, U+202F, U+205F and U+3000, here in their UTF-8 encodings of one, two and
  three bytes.
\<close>

definition ws1 :: "char \<Rightarrow> bool" where
  "ws1 a = ((9 \<le> byte a \<and> byte a \<le> 13) \<or> (28 \<le> byte a \<and> byte a \<le> 32))"

definition ws2 :: "char \<Rightarrow> char \<Rightarrow> bool" where
  "ws2 a b = (byte a = 0xC2 \<and> (byte b = 0x85 \<or> byte b = 0xA0))"

definition ws3 :: "char \<Rightarrow> char \<Rightarrow> char \<Rightarrow> bool" where
  "ws3 a b c =
     ((byte a = 0xE1 \<and> byte b = 0x9A \<and> byte c = 0x80) \<or>
      (byte a = 0xE2 \<and> byte b = 0x80 \<and>
         ((0x80 \<le> byte c \<and> byte c \<le> 0x8A) \<or> byte c = 0xA8 \<or> byte c = 0xA9 \<or>
          byte c = 0xAF)) \<or>
      (byte a = 0xE2 \<and> byte b = 0x81 \<and> byte c = 0x9F) \<or>
      (byte a = 0xE3 \<and> byte b = 0x80 \<and> byte c = 0x80))"

fun lstrip :: "string \<Rightarrow> string" where
  "lstrip (a # b # c # r) =
     (if ws1 a then lstrip (b # c # r)
      else if ws2 a b then lstrip (c # r)
      else if ws3 a b c then lstrip r
      else a # b # c # r)"
| "lstrip [a, b] = (if ws1 a then lstrip [b] else if ws2 a b then [] else [a, b])"
| "lstrip [a] = (if ws1 a then [] else [a])"
| "lstrip [] = []"

text \<open>The same from the right end, on the reversed text (last byte first).\<close>

fun rstrip_rev :: "string \<Rightarrow> string" where
  "rstrip_rev (c # b # a # r) =
     (if ws1 c then rstrip_rev (b # a # r)
      else if ws2 b c then rstrip_rev (a # r)
      else if ws3 a b c then rstrip_rev r
      else c # b # a # r)"
| "rstrip_rev [c, b] = (if ws1 c then rstrip_rev [b] else if ws2 b c then [] else [c, b])"
| "rstrip_rev [c] = (if ws1 c then [] else [c])"
| "rstrip_rev [] = []"

definition rstrip :: "string \<Rightarrow> string" where
  "rstrip s = rev (rstrip_rev (rev s))"

definition strip :: "string \<Rightarrow> string" where
  "strip s = rstrip (lstrip s)"

subsection \<open>Events and frames\<close>

text \<open>
  Each \<open>yield\<close> of the generator is one event. An error event carries either the exit
  status (\<open>Return code {returncode}\<close>) or the exception caught (\<open>str(e)\<close>).
\<close>

datatype error_payload = ReturnCode int | Fault py_exception

datatype stream_event = Start | Data string | Error error_payload | Complete | End

definition nl :: string where
  "nl = [CHR 0x0A]"

text \<open>
  The string yielded for an event. \<open>json.dumps\<close> of a string and \<open>str\<close> of an
  exception are the library's; they are parameters here.
\<close>

fun frame :: "(string \<Rightarrow> string) \<Rightarrow> (py_exception \<Rightarrow> string) \<Rightarrow> stream_event \<Rightarrow> string" where
  "frame dumps_str str_exc Start =
     ''event: start'' @ nl @ ''data: Starting playbook execution...'' @ nl @ nl"
| "frame dumps_str str_exc (Data cleaned) = ''data: '' @ dumps_str cleaned @ nl @ nl"
| "frame dumps_str str_exc Complete = ''event: complete'' @ nl @ ''data: SUCCESS'' @ nl @ nl"
| "frame dumps_str str_exc (Error (ReturnCode rc)) =
     ''event: error'' @ nl @ ''data: Return code '' @ py_str_int rc @ nl @ nl"
| "frame dumps_str str_exc (Error (Fault e)) =
     ''event: error'' @ nl @ ''data: '' @ str_exc e @ nl @ nl"
| "frame dumps_str str_exc End = ''event: end'' @ nl @ ''data: done'' @ nl @ nl"

subsection \<open>The child of a relay\<close>

text \<open>
  The \<open>i\<close>-th \<open>readline()\<close> on the merged output returns bytes (the empty bytes object
  at end of file, which ends the \<open>async for\<close>), raises, or never returns because the
  child stays silent without closing its output. \<open>wait()\<close> returns the exit status, or
  never returns when the child never exits.
\<close>

datatype read_result = Read bytes | ReadError py_exception | Blocked

record relay_child =
  readline :: "nat \<Rightarrow> read_result"
  wait :: "int option"

text \<open>
  What the generator has done so far: process operations and yields, in order. A block
  of code ends by falling through, by raising, or is still waiting (for the child, or
  because the observer stopped looking).
\<close>

datatype step = Do proc_action | Yield stream_event

datatype outcome = Returned | Threw py_exception | Waiting

record 'v playbook_input =
  playbook :: string
  inventory :: "string option"
  extra_vars :: "(string \<times> 'v) list option"

text \<open>
  \<^verbatim>\<open>
  async for line in process.stdout:
      cleaned = line.decode().rstrip()
      if cleaned:
          yield f"data: {json.dumps(cleaned)}\n\n"
  \<close>
  The loop has no bound of its own: it runs as long as the child writes. The first
  argument bounds the number of reads observed; \<open>i\<close> is the number of reads done before.
\<close>

fun read_lines :: "nat \<Rightarrow> (nat \<Rightarrow> read_result) \<Rightarrow> nat \<Rightarrow> step list \<times> outcome" where
  "read_lines 0 rd i = ([], Waiting)"
| "read_lines (Suc fuel) rd i =
     (case rd i of
        Blocked \<Rightarrow> ([Do ReadLine], Waiting)
      | ReadError e \<Rightarrow> ([Do ReadLine], Threw e)
      | Read line \<Rightarrow>
          (if line = [] then ([Do ReadLine], Returned)
           else
             (case decode line of
                Inl e \<Rightarrow> ([Do ReadLine], Threw e)
              | Inr text \<Rightarrow>
                  (let cleaned = rstrip text;
                       (steps, r) = read_lines fuel rd (Suc i)
                   in (Do ReadLine # (if cleaned \<noteq> [] then [Yield (Data cleaned)] else [])
                         @ steps, r)))))"

text \<open>
  \<^verbatim>\<open>
  cmd = ["ansible-playbook", playbook, "-i", inventory]
  if extra_vars:
      ev_str = json.dumps(extra_vars)
      cmd.extend(["--extra-vars", ev_str])
  \<close>
  with \<open>inventory = payload.inventory or "inventory.ini"\<close>. \<open>json.dumps\<close> of the
  dictionary is a parameter; it returns the text or raises.
\<close>

definition playbook_command ::
  "((string \<times> 'v) list \<Rightarrow> py_exception + string) \<Rightarrow> 'v playbook_input \<Rightarrow>
     py_exception + string list" where
  "playbook_command dumps payload =
     (let inventory =
            (case inventory payload of
               None \<Rightarrow> ''inventory.ini''
             | Some i \<Rightarrow> if i = [] then ''inventory.ini'' else i);
          cmd = [''ansible-playbook'', playbook payload, ''-i'', inventory]
      in case extra_vars payload of
           None \<Rightarrow> Inr cmd
         | Some ev \<Rightarrow>
             (if ev = [] then Inr cmd
              else (case dumps ev of
                      Inl e \<Rightarrow> Inl e
                    | Inr ev_str \<Rightarrow> Inr (cmd @ [''--extra-vars'', ev_str]))))"

text \<open>
  The body of the \<open>try\<close>:
  \<^verbatim>\<open>
  process = await asyncio.create_subprocess_exec(*cmd, stdout=PIPE, stderr=STDOUT)
  async for line in process.stdout: ...
  await process.wait()
  if process.returncode == 0:
      yield "event: complete\ndata: SUCCESS\n\n"
  else:
      yield f"event: error\ndata: Return code {process.returncode}\n\n"
  \<close>
\<close>

definition try_block ::
  "nat \<Rightarrow> ((string \<times> 'v) list \<Rightarrow> py_exception + string) \<Rightarrow> relay_child launcher \<Rightarrow>
     'v playbook_input \<Rightarrow> step list \<times> outcome" where
  "try_block fuel dumps os payload =
     (case playbook_command dumps payload of
        Inl e \<Rightarrow> ([], Threw e)
      | Inr cmd \<Rightarrow>
          (case os cmd None of
             Inl e \<Rightarrow> ([Do (Spawn cmd None)], Threw e)
           | Inr process \<Rightarrow>
               (case read_lines fuel (readline process) 0 of
                  (steps, Waiting) \<Rightarrow> (Do (Spawn cmd None) # steps, Waiting)
                | (steps, Threw e) \<Rightarrow> (Do (Spawn cmd None) # steps, Threw e)
                | (steps, Returned) \<Rightarrow>
                    (case wait process of
                       None \<Rightarrow> (Do (Spawn cmd None) # steps @ [Do Wait], Waiting)
                     | Some returncode \<Rightarrow>
                         (Do (Spawn cmd None) # steps @
                            [Do Wait,
                             Yield (if returncode = 0 then Complete
                                    else Error (ReturnCode returncode))],
                          Returned)))))"

text \<open>
  \<^verbatim>\<open>
  async def event_stream():
      yield "event: start\ndata: Starting playbook execution...\n\n"
      try:
          ...
      except Exception as e:
          yield f"event: error\ndata: {str(e)}\n\n"
      yield "event: end\ndata: done\n\n"
  \<close>
  The result is the steps performed and whether the generator is exhausted.
\<close>

definition event_stream ::
  "nat \<Rightarrow> ((string \<times> 'v) list \<Rightarrow> py_exception + string) \<Rightarrow> relay_child launcher \<Rightarrow>
     'v playbook_input \<Rightarrow> step list \<times> bool" where
  "event_stream fuel dumps os payload =
     (case try_block fuel dumps os payload of
        (steps, Returned) \<Rightarrow> (Yield Start # steps @ [Yield End], True)
      | (steps, Threw e) \<Rightarrow> (Yield Start # steps @ [Yield (Error (Fault e)), Yield End], True)
      | (steps, Waiting) \<Rightarrow> (Yield Start # steps, False))"

text \<open>The events among the steps, and the classes of events the contract speaks of.\<close>

fun events :: "step list \<Rightarrow> stream_event list" where
  "events [] = []"
| "events (Yield e # ss) = e # events ss"
| "events (Do a # ss) = events ss"

fun is_data :: "stream_event \<Rightarrow> bool" where
  "is_data (Data s) = True"
| "is_data e = False"

fun is_terminal :: "stream_event \<Rightarrow> bool" where
  "is_terminal Complete = True"
| "is_terminal (Error p) = True"
| "is_terminal e = False"

subsection \<open>Conditions on the child and on the consumer\<close>

text \<open>
  A read after which the loop goes on: a non-empty line that decodes. A read on which
  the loop body raises: the reader's own exception, or a line the codec rejects.
\<close>

definition good_line :: "read_result \<Rightarrow> bool" where
  "good_line r = (case r of Read l \<Rightarrow> l \<noteq> [] \<and> utf8_valid l | _ \<Rightarrow> False)"

fun read_raises :: "read_result \<Rightarrow> py_exception \<Rightarrow> bool" where
  "read_raises (ReadError e') e = (e' = e)"
| "read_raises (Read l) e = (l \<noteq> [] \<and> \<not> utf8_valid l \<and> e = UnicodeDecodeError l)"
| "read_raises Blocked e = False"

text \<open>A child that writes the given lines and then closes its output.\<close>

definition writes :: "bytes list \<Rightarrow> nat \<Rightarrow> read_result" where
  "writes ls i = (if i < length ls then Read (ls ! i) else Read [])"

text \<open>
  The ways an invocation ends. The child is launched, \<open>n\<close> lines are read, the output
  ends and the child exits with status \<open>rc\<close>; or an exception \<open>e\<close> is raised in the
  \<open>try\<close> after \<open>n\<close> lines: by \<open>json.dumps\<close> or by the launch (then \<open>n = 0\<close>), or by
  the read or the decoding of the next line.
\<close>

definition relay_exits ::
  "((string \<times> 'v) list \<Rightarrow> py_exception + string) \<Rightarrow> relay_child launcher \<Rightarrow>
     'v playbook_input \<Rightarrow> nat \<Rightarrow> int \<Rightarrow> bool" where
  "relay_exits dumps os payload n rc =
     (case playbook_command dumps payload of
        Inl e \<Rightarrow> False
      | Inr cmd \<Rightarrow>
          (case os cmd None of
             Inl e \<Rightarrow> False
           | Inr process \<Rightarrow>
               (\<forall>j<n. good_line (readline process j)) \<and> readline process n = Read [] \<and>
               wait process = Some rc))"

definition relay_fault ::
  "((string \<times> 'v) list \<Rightarrow> py_exception + string) \<Rightarrow> relay_child launcher \<Rightarrow>
     'v playbook_input \<Rightarrow> nat \<Rightarrow> py_exception \<Rightarrow> bool" where
  "relay_fault dumps os payload n e =
     (case playbook_command dumps payload of
        Inl e' \<Rightarrow> e' = e \<and> n = 0
      | Inr cmd \<Rightarrow>
          (case os cmd None of
             Inl e' \<Rightarrow> e' = e \<and> n = 0
           | Inr process \<Rightarrow>
               (\<forall>j<n. good_line (readline process j)) \<and> read_raises (readline process n) e))"

text \<open>
  A consumer that disconnects, or a task that is cancelled, makes \<open>GeneratorExit\<close> or
  \<open>CancelledError\<close> surface at the \<open>yield\<close> or \<open>await\<close> where the generator is
  suspended. Neither is an \<open>Exception\<close>, so the handler does not run, and there is no
  \<open>finally\<close>: the generator has then performed its first \<open>m\<close> steps and nothing more.
\<close>

definition abandoned :: "nat \<Rightarrow> step list \<Rightarrow> step list" where
  "abandoned m steps = take m steps"

section \<open>Writing a playbook file\<close>

text \<open>
  \<open>os.path.basename\<close> and \<open>os.path.join\<close> (two arguments) of \<open>posixpath\<close>:
  \<^verbatim>\<open>
  def basename(p):
      i = p.rfind('/') + 1
      return p[i:]

  def join(a, b):
      if b.startswith('/'):   path = b
      elif not a or a.endswith('/'):   path = a + b
      else:   path = a + '/' + b
      return path
  \<close>
\<close>

definition basename :: "string \<Rightarrow> string" where
  "basename p = rev (takeWhile (\<lambda>c. c \<noteq> CHR ''/'') (rev p))"

definition path_join :: "string \<Rightarrow> string \<Rightarrow> string" where
  "path_join a b =
     (if take 1 b = ''/'' then b
      else if a = [] \<or> last a = CHR ''/'' then a @ b
      else a @ ''/'' @ b)"

text \<open>
  \<open>PLAYBOOKS_DIR = os.path.join(BASE_DIR, "playbooks")\<close>, where \<open>BASE_DIR\<close> is the
  directory of the module, a parameter here.
\<close>

definition PLAYBOOKS_DIR :: "string \<Rightarrow> string" where
  "PLAYBOOKS_DIR BASE_DIR = path_join BASE_DIR ''playbooks''"

text \<open>
  The files of the system are the contents of the regular files, by path; paths name
  files directly (no links). Directories are not tracked: whether the system refuses to
  create a directory or to open a path for writing (a missing directory, permissions, a
  directory at the path) is its own affair, except that \<open>makedirs\<close> fails on a regular
  file and that the names \<open>.\<close> and \<open>..\<close> always denote directories.
\<close>

record file_system =
  files :: "string \<rightharpoonup> string"
  refuses_makedirs :: "string \<Rightarrow> py_exception option"
  refuses_open :: "string \<Rightarrow> py_exception option"

definition makedirs :: "string \<Rightarrow> file_system \<Rightarrow> py_exception + file_system" where
  "makedirs p fs =
     (if files fs p \<noteq> None then Inl (FileExistsError p)
      else case refuses_makedirs fs p of Some e \<Rightarrow> Inl e | None \<Rightarrow> Inr fs)"

text \<open>\<open>with open(path, "w", encoding="utf-8") as fh: fh.write(data)\<close>\<close>

definition write_file :: "string \<Rightarrow> string \<Rightarrow> file_system \<Rightarrow> py_exception + file_system" where
  "write_file p data fs =
     (if basename p = ''.'' \<or> basename p = ''..'' then Inl (IsADirectoryError p)
      else case refuses_open fs p of
             Some e \<Rightarrow> Inl e
           | None \<Rightarrow> Inr (fs\<lparr>files := (files fs)(p \<mapsto> data)\<rparr>))"

record playbook_generate_input =
  file_name :: string
  data :: string

text \<open>
  \<^verbatim>\<open>
  async def generate_playbook(input: PlaybookGenerateInput):
      sanitized_name = os.path.basename(input.file_name.strip())
      if not sanitized_name:
          return {"error": "file_name must be provided"}
      os.makedirs(PLAYBOOKS_DIR, exist_ok=True)
      target_path = os.path.join(PLAYBOOKS_DIR, sanitized_name)
      def _write_file():
          with open(target_path, "w", encoding="utf-8") as fh:
              fh.write(input.data)
      await asyncio.to_thread(_write_file)
      return {"status": "written", "path": target_path}
  \<close>
\<close>

definition generate_playbook ::
  "string \<Rightarrow> file_system \<Rightarrow> playbook_generate_input \<Rightarrow>
     (py_exception + py_dict) \<times> file_system" where
  "generate_playbook BASE_DIR fs input =
     (let sanitized_name = basename (strip (file_name input))
      in if sanitized_name = [] then
           (Inr [(''error'', PyStr ''file_name must be provided'')], fs)
         else
           (case makedirs (PLAYBOOKS_DIR BASE_DIR) fs of
              Inl e \<Rightarrow> (Inl e, fs)
            | Inr fs1 \<Rightarrow>
                (let target_path = path_join (PLAYBOOKS_DIR BASE_DIR) sanitized_name
                 in case write_file target_path (data input) fs1 of
                      Inl e \<Rightarrow> (Inl e, fs1)
                    | Inr fs2 \<Rightarrow>
                        (Inr [(''status'', PyStr ''written''), (''path'', PyStr target_path)],
                         fs2))))"

section \<open>Listing the inventory\<close>

text \<open>
  The child of an endpoint that waits without a bound: \<open>communicate()\<close> returns the
  captured stdout and stderr, the pipes having reached end of file and the child having
  exited with a status, or never returns.
\<close>

record oneshot_child =
  communicate :: "(bytes \<times> bytes \<times> int) option"

text \<open>What an endpoint returns: a dictionary it builds, or the value \<open>json.loads\<close> gave.\<close>

datatype 'j response = Dict py_dict | Parsed 'j

text \<open>
  \<^verbatim>\<open>
  async def list_inventory(input: InventoryInput):
      inventory_file = input.inventory
      if not os.path.exists(inventory_file):
          return {"error": f"Inventory file not found: {inventory_file}"}
      cmd = ["ansible-inventory", "-i", inventory_file, "--list"]
      proc = await asyncio.create_subprocess_exec(*cmd, stdout=PIPE, stderr=PIPE)
      stdout, stderr = await proc.communicate()
      if proc.returncode != 0:
          return {"stderr": stderr.decode(), "returncode": proc.returncode}
      try:
          return json.loads(stdout.decode())
      except json.JSONDecodeError:
          return {"output": stdout.decode()}
  \<close>
  \<open>os.path.exists\<close> and \<open>json.loads\<close> are parameters; \<open>json.loads\<close> returns a value
  or raises, and the handler catches the exceptions of class \<open>JSONDecodeError\<close>. The
  result is \<open>None\<close> when the call never returns, else the value returned or the
  exception raised; with it, the process operations performed.
\<close>

definition list_inventory ::
  "(string \<Rightarrow> bool) \<Rightarrow> (string \<Rightarrow> py_exception + 'j) \<Rightarrow> oneshot_child launcher \<Rightarrow> string \<Rightarrow>
     (py_exception + 'j response) option \<times> proc_action list" where
  "list_inventory path_exists json_loads os inventory_file =
     (if \<not> path_exists inventory_file then
        (Some (Inr (Dict [(''error'',
                           PyStr (''Inventory file not found: '' @ inventory_file))])), [])
      else
        (let cmd = [''ansible-inventory'', ''-i'', inventory_file, ''--list'']
         in case os cmd None of
              Inl e \<Rightarrow> (Some (Inl e), [Spawn cmd None])
            | Inr proc \<Rightarrow>
                (case communicate proc of
                   None \<Rightarrow> (None, [Spawn cmd None, Communicate])
                 | Some (stdout, stderr, returncode) \<Rightarrow>
                     (if returncode \<noteq> 0 then
                        (case decode stderr of
                           Inl e \<Rightarrow> Some (Inl e)
                         | Inr err \<Rightarrow>
                             Some (Inr (Dict [(''stderr'', PyStr err),
                                              (''returncode'', PyInt returncode)])))
                      else
                        (case decode stdout of
                           Inl e \<Rightarrow> Some (Inl e)
                         | Inr text \<Rightarrow>
                             (case json_loads text of
                                Inr value \<Rightarrow> Some (Inr (Parsed value))
                              | Inl (Raised cls msg) \<Rightarrow>
                                  if cls = ''JSONDecodeError''
                                  then Some (Inr (Dict [(''output'', PyStr text)]))
                                  else Some (Inl (Raised cls msg))
                              | Inl e \<Rightarrow> Some (Inl e))),
                      [Spawn cmd None, Communicate]))))"

section \<open>The execution environment\<close>

lemma build_ansible_env_ref: "fst (build_ansible_env st) = Obj (length (objs st))"
  by (simp add: build_ansible_env_def environ_copy_def Let_def)

lemma build_ansible_env_environ: "environ (snd (build_ansible_env st)) = environ st"
  by (simp add: build_ansible_env_def environ_copy_def setdefault_def Let_def)

lemma build_ansible_env_objs:
  "objs (snd (build_ansible_env st)) =
     objs st @ [[''ANSIBLE_FORCE_COLOR'' \<mapsto> ''0'', ''ANSIBLE_HOST_KEY_CHECKING'' \<mapsto> ''False'']
                ++ environ st]"
proof -
  let ?d = "[''ANSIBLE_FORCE_COLOR'' \<mapsto> ''0'', ''ANSIBLE_HOST_KEY_CHECKING'' \<mapsto> ''False'']"
  have m: "?d ++ environ st =
      (\<lambda>k. case environ st k of
              None \<Rightarrow> (if k = ''ANSIBLE_HOST_KEY_CHECKING'' then Some ''False''
                        else if k = ''ANSIBLE_FORCE_COLOR'' then Some ''0'' else None)
            | Some v \<Rightarrow> Some v)"
    by (rule ext) (simp add: map_add_def split: option.splits)
  show ?thesis
    unfolding m
    by (auto simp: build_ansible_env_def environ_copy_def setdefault_def Let_def
        nth_append fun_eq_iff split: option.splits)
qed

text \<open>
  C4. The environment builder returns a freshly allocated dictionary (a reference no
  earlier object has), whose content is the ambient environment with
  \<open>ANSIBLE_FORCE_COLOR = 0\<close> and \<open>ANSIBLE_HOST_KEY_CHECKING = False\<close> added where the
  ambient environment has no binding for them, every other binding being the ambient
  one; \<open>os.environ\<close> and every dictionary allocated before are left as they were, and
  the content returned is a function of the ambient environment alone.
\<close>

theorem build_ansible_env_independent_copy:
  "fst (build_ansible_env st) = Obj (length (objs st)) \<and>
   deref st (fst (build_ansible_env st)) = None \<and>
   deref (snd (build_ansible_env st)) (fst (build_ansible_env st)) =
     Some ([''ANSIBLE_FORCE_COLOR'' \<mapsto> ''0'', ''ANSIBLE_HOST_KEY_CHECKING'' \<mapsto> ''False'']
           ++ environ st) \<and>
   environ (snd (build_ansible_env st)) = environ st \<and>
   take (length (objs st)) (objs (snd (build_ansible_env st))) = objs st"
  by (simp add: build_ansible_env_ref build_ansible_env_environ build_ansible_env_objs
      deref_def)

theorem build_ansible_env_independent_copy_witness:
  "deref (snd (build_ansible_env \<lparr>environ = [''ANSIBLE_FORCE_COLOR'' \<mapsto> ''1'', ''HOME'' \<mapsto> ''/root''], objs = []\<rparr>))
     (Obj 0) =
   Some [''ANSIBLE_FORCE_COLOR'' \<mapsto> ''1'', ''HOME'' \<mapsto> ''/root'',
         ''ANSIBLE_HOST_KEY_CHECKING'' \<mapsto> ''False''] \<and>
   environ (snd (build_ansible_env \<lparr>environ = [''ANSIBLE_FORCE_COLOR'' \<mapsto> ''1'', ''HOME'' \<mapsto> ''/root''], objs = []\<rparr>))
     ''ANSIBLE_HOST_KEY_CHECKING'' = None"
  using build_ansible_env_independent_copy
    [of "\<lparr>environ = [''ANSIBLE_FORCE_COLOR'' \<mapsto> ''1'', ''HOME'' \<mapsto> ''/root''], objs = []\<rparr>"]
  by (auto simp: fun_eq_iff map_add_def)

section \<open>Results of the bounded process runner\<close>

lemma build_ansible_env_deref:
  "deref (snd (build_ansible_env st)) (fst (build_ansible_env st)) =
     Some ([''ANSIBLE_FORCE_COLOR'' \<mapsto> ''0'', ''ANSIBLE_HOST_KEY_CHECKING'' \<mapsto> ''False'']
           ++ environ st)"
  by (simp add: build_ansible_env_ref build_ansible_env_objs deref_def)

lemma run_ansible_command_unfold:
  "run_ansible_command os cmd timeout st =
     (let env = Some ([''ANSIBLE_FORCE_COLOR'' \<mapsto> ''0'',
                       ''ANSIBLE_HOST_KEY_CHECKING'' \<mapsto> ''False''] ++ environ st);
          st' = snd (build_ansible_env st);
          spawn = Spawn cmd env
      in case os cmd env of
           Inl e \<Rightarrow> (Some (Inl e), [spawn], st')
         | Inr proc \<Rightarrow>
             (case wait_for_communicate proc timeout of
                Finished out err rc \<Rightarrow>
                  (case decode out of
                     Inl e \<Rightarrow> (Some (Inl e), [spawn, WaitForCommunicate timeout], st')
                   | Inr stdout \<Rightarrow>
                       (case decode err of
                          Inl e \<Rightarrow> (Some (Inl e), [spawn, WaitForCommunicate timeout], st')
                        | Inr stderr \<Rightarrow>
                            (Some (Inr [(''stdout'', PyStr stdout), (''stderr'', PyStr stderr),
                                        (''returncode'', PyInt rc)]),
                             [spawn, WaitForCommunicate timeout], st')))
              | Elapsed \<Rightarrow>
                  (case communicate_after_kill proc of
                     None \<Rightarrow>
                       (None, [spawn, WaitForCommunicate timeout, Kill, Communicate], st')
                   | Some drained \<Rightarrow>
                       (Some (Inr [(''stdout'', PyStr []),
                                   (''stderr'',
                                    PyStr (''Command timed out after '' @ py_str_int timeout
                                           @ ''s'')),
                                   (''returncode'', PyNone), (''timeout'', PyBool True)]),
                        [spawn, WaitForCommunicate timeout, Kill, Communicate], st'))))"
proof -
  obtain r st' where b: "build_ansible_env st = (r, st')"
    by (cases "build_ansible_env st")
  have d: "deref st' r =
      Some ([''ANSIBLE_FORCE_COLOR'' \<mapsto> ''0'', ''ANSIBLE_HOST_KEY_CHECKING'' \<mapsto> ''False'']
            ++ environ st)"
    using build_ansible_env_deref [of st] b by simp
  show ?thesis
    unfolding run_ansible_command_def b
    by (simp add: d Let_def
        split: sum.splits bounded_wait.splits prod.splits option.splits)
qed

text \<open>
  When the bound elapses before \<open>communicate()\<close> completes, the child is killed and a
  second \<open>communicate()\<close> is awaited. If that returns, the result is the timeout
  dictionary, in which nothing that was drained occurs; if it does not, the call does
  not return either.
\<close>

lemma run_ansible_command_elapsed:
  assumes "os cmd (Some ([''ANSIBLE_FORCE_COLOR'' \<mapsto> ''0'',
                          ''ANSIBLE_HOST_KEY_CHECKING'' \<mapsto> ''False''] ++ environ st))
             = Inr proc"
    and "\<not> (exits_within proc timeout \<and> pipes_closed_within proc timeout)"
  shows "fst (run_ansible_command os cmd timeout st) =
           (case communicate_after_kill proc of
              None \<Rightarrow> None
            | Some drained \<Rightarrow>
                Some (Inr [(''stdout'', PyStr ''''),
                           (''stderr'',
                            PyStr (''Command timed out after '' @ py_str_int timeout @ ''s'')),
                           (''returncode'', PyNone), (''timeout'', PyBool True)]))"
    and "fst (snd (run_ansible_command os cmd timeout st)) =
           [Spawn cmd (Some ([''ANSIBLE_FORCE_COLOR'' \<mapsto> ''0'',
                              ''ANSIBLE_HOST_KEY_CHECKING'' \<mapsto> ''False''] ++ environ st)),
            WaitForCommunicate timeout, Kill, Communicate]"
  using assms
  by (auto simp: run_ansible_command_unfold wait_for_communicate_def Let_def
      split: option.splits)


text \<open>
  C3, as amended. When \<open>communicate()\<close> completes within the bound, that is, the launched
  child has exited and its pipes have reached end of file within it: if what was
  captured on stdout and on stderr is well-formed UTF-8, the runner returns the
  dictionary with \<open>stdout\<close> and \<open>stderr\<close> the captured output and \<open>returncode\<close> the
  child's exit status, which has no \<open>timeout\<close> key, so that the timed-out flag reads
  false, and the child is not killed; if the captured stdout, or else the captured
  stderr, is not well-formed UTF-8, the codec's exception reaches the caller.
\<close>

theorem run_ansible_command_finished:
  assumes "os cmd (Some ([''ANSIBLE_FORCE_COLOR'' \<mapsto> ''0'',
                          ''ANSIBLE_HOST_KEY_CHECKING'' \<mapsto> ''False''] ++ environ st))
             = Inr proc"
    and "exits_within proc timeout" and "pipes_closed_within proc timeout"
    and "captured proc = (out, err)"
  shows "fst (run_ansible_command os cmd timeout st) =
           (if \<not> utf8_valid out then Some (Inl (UnicodeDecodeError out))
            else if \<not> utf8_valid err then Some (Inl (UnicodeDecodeError err))
            else Some (Inr [(''stdout'', PyStr out), (''stderr'', PyStr err),
                            (''returncode'', PyInt (exit_status proc))])) \<and>
         \<not> timed_out [(''stdout'', PyStr out), (''stderr'', PyStr err),
                      (''returncode'', PyInt (exit_status proc))] \<and>
         fst (snd (run_ansible_command os cmd timeout st)) =
           [Spawn cmd (Some ([''ANSIBLE_FORCE_COLOR'' \<mapsto> ''0'',
                              ''ANSIBLE_HOST_KEY_CHECKING'' \<mapsto> ''False''] ++ environ st)),
            WaitForCommunicate timeout]"
  using assms
  by (simp add: run_ansible_command_unfold wait_for_communicate_def decode_def timed_out_def)

text \<open>The command \<open>echo hello\<close> under a bound of five seconds.\<close>

theorem run_ansible_command_finished_witness:
  "fst (run_ansible_command
          (\<lambda>cmd env. Inr \<lparr>exits_within = (\<lambda>t. True), pipes_closed_within = (\<lambda>t. True),
                           captured = (''hello'' @ [CHR 0x0A], ''''), exit_status = 0,
                           communicate_after_kill = Some ('''', '''')\<rparr>)
          [''echo'', ''hello''] 5 \<lparr>environ = Map.empty, objs = []\<rparr>) =
     Some (Inr [(''stdout'', PyStr (''hello'' @ [CHR 0x0A])), (''stderr'', PyStr ''''),
                (''returncode'', PyInt 0)]) \<and>
   \<not> timed_out [(''stdout'', PyStr (''hello'' @ [CHR 0x0A])), (''stderr'', PyStr ''''),
                (''returncode'', PyInt 0)]"
  using run_ansible_command_finished
    [where os = "\<lambda>cmd env. Inr \<lparr>exits_within = (\<lambda>t. True), pipes_closed_within = (\<lambda>t. True),
                           captured = (''hello'' @ [CHR 0x0A], ''''), exit_status = 0,
                           communicate_after_kill = Some ('''', '''')\<rparr>"
       and cmd = "[''echo'', ''hello'']" and st = "\<lparr>environ = Map.empty, objs = []\<rparr>"
       and timeout = 5 and out = "''hello'' @ [CHR 0x0A]" and err = "''''"]
  by (simp add: byte_def)

text \<open>
  Two commands that terminate within the bound. The first exits with status 0 after
  writing the single byte \<open>0xFF\<close> to stdout: the codec's exception reaches the caller.
  The second, \<open>sh -c "sleep 3 & echo started"\<close> under a bound of one second, exits with
  status 0 at once while the background process keeps the pipes open for three seconds:
  the bound elapses, the child is killed, and the timeout dictionary is returned.
\<close>

theorem run_ansible_command_finished_counterexample:
  "fst (run_ansible_command
          (\<lambda>cmd env. Inr \<lparr>exits_within = (\<lambda>t. True), pipes_closed_within = (\<lambda>t. True),
                           captured = ([CHR 0xFF], ''''), exit_status = 0,
                           communicate_after_kill = Some ('''', '''')\<rparr>)
          [''printf'', [CHR 0x5C] @ ''377''] 5 \<lparr>environ = Map.empty, objs = []\<rparr>) =
     Some (Inl (UnicodeDecodeError [CHR 0xFF])) \<and>
   fst (run_ansible_command
          (\<lambda>cmd env. Inr \<lparr>exits_within = (\<lambda>t. True), pipes_closed_within = (\<lambda>t. 3 \<le> t),
                           captured = (''started'' @ [CHR 0x0A], ''''), exit_status = 0,
                           communicate_after_kill = Some (''started'' @ [CHR 0x0A], '''')\<rparr>)
          [''sh'', ''-c'', ''sleep 3 & echo started''] 1 \<lparr>environ = Map.empty, objs = []\<rparr>) =
     Some (Inr [(''stdout'', PyStr ''''), (''stderr'', PyStr ''Command timed out after 1s''),
                (''returncode'', PyNone), (''timeout'', PyBool True)]) \<and>
   Kill \<in> set (fst (snd (run_ansible_command
          (\<lambda>cmd env. Inr \<lparr>exits_within = (\<lambda>t. True), pipes_closed_within = (\<lambda>t. 3 \<le> t),
                           captured = (''started'' @ [CHR 0x0A], ''''), exit_status = 0,
                           communicate_after_kill = Some (''started'' @ [CHR 0x0A], '''')\<rparr>)
          [''sh'', ''-c'', ''sleep 3 & echo started''] 1 \<lparr>environ = Map.empty, objs = []\<rparr>)))"
  by (simp add: run_ansible_command_unfold wait_for_communicate_def decode_def byte_def
      py_str_int_def)

section \<open>Event sequences of the relay\<close>

lemma events_append: "events (a @ b) = events a @ events b"
  by (induction a rule: events.induct) simp_all

lemma read_lines_good:
  assumes "rd i = Read l" and "l \<noteq> []" and "utf8_valid l"
  shows "read_lines (Suc fuel) rd i =
           (Do ReadLine # (if rstrip l \<noteq> [] then [Yield (Data (rstrip l))] else []) @
              fst (read_lines fuel rd (Suc i)),
            snd (read_lines fuel rd (Suc i)))"
  using assms by (simp add: decode_def Let_def split: prod.splits)

lemma read_lines_prefix:
  assumes "\<forall>j<n. good_line (rd (i + j))" and "n \<le> fuel"
  shows "\<exists>pre. read_lines fuel rd i =
            (pre @ fst (read_lines (fuel - n) rd (i + n)),
             snd (read_lines (fuel - n) rd (i + n))) \<and>
          (\<forall>e\<in>set (events pre). is_data e) \<and> length (events pre) \<le> n \<and>
          Do Kill \<notin> set pre"
  using assms
proof (induction n arbitrary: i fuel)
  case 0
  show ?case by (rule exI [of _ "[]"]) simp
next
  case (Suc n)
  from Suc.prems obtain k where k: "fuel = Suc k" and nk: "n \<le> k"
    by (cases fuel) auto
  have "good_line (rd (i + 0))"
    using Suc.prems(1) by blast
  then obtain l where l: "rd i = Read l" "l \<noteq> []" "utf8_valid l"
    by (auto simp: good_line_def split: read_result.splits)
  have "\<forall>j<n. good_line (rd (Suc i + j))"
    using Suc.prems(1) by (metis add_Suc_shift Suc_less_eq)
  from Suc.IH [OF this nk] obtain pre where
    pre: "read_lines k rd (Suc i) =
            (pre @ fst (read_lines (k - n) rd (Suc i + n)),
             snd (read_lines (k - n) rd (Suc i + n)))"
      "\<forall>e\<in>set (events pre). is_data e" "length (events pre) \<le> n" "Do Kill \<notin> set pre"
    by blast
  let ?h = "Do ReadLine # (if rstrip l \<noteq> [] then [Yield (Data (rstrip l))] else [])"
  show ?case
  proof (intro exI [of _ "?h @ pre"] conjI)
    show "read_lines fuel rd i =
      ((?h @ pre) @ fst (read_lines (fuel - Suc n) rd (i + Suc n)),
       snd (read_lines (fuel - Suc n) rd (i + Suc n)))"
      unfolding k read_lines_good [of rd i l k, OF l] pre(1) by simp
    show "\<forall>e\<in>set (events (?h @ pre)). is_data e"
      using pre(2) by (simp add: events_append)
    show "length (events (?h @ pre)) \<le> Suc n"
      using pre(3) by (simp add: events_append)
    show "Do Kill \<notin> set (?h @ pre)"
      using pre(4) by simp
  qed
qed

lemma read_lines_stop:
  assumes "\<forall>j<n. good_line (rd j)" and "n < fuel" and "\<not> good_line (rd n)"
  shows "\<exists>pre. read_lines fuel rd 0 =
            (pre @ [Do ReadLine],
             (case rd n of
                Read l \<Rightarrow> if l = [] then Returned else Threw (UnicodeDecodeError l)
              | ReadError e \<Rightarrow> Threw e
              | Blocked \<Rightarrow> Waiting)) \<and>
          (\<forall>e\<in>set (events pre). is_data e) \<and> length (events pre) \<le> n"
proof -
  from assms(2) obtain k where k: "fuel - n = Suc k"
    by (cases "fuel - n") auto
  from read_lines_prefix [of n rd 0 fuel] assms(1,2) obtain pre where
    pre: "read_lines fuel rd 0 =
            (pre @ fst (read_lines (fuel - n) rd n), snd (read_lines (fuel - n) rd n))"
      "\<forall>e\<in>set (events pre). is_data e" "length (events pre) \<le> n"
    by auto
  have "read_lines (Suc k) rd n =
          ([Do ReadLine],
           (case rd n of
              Read l \<Rightarrow> if l = [] then Returned else Threw (UnicodeDecodeError l)
            | ReadError e \<Rightarrow> Threw e
            | Blocked \<Rightarrow> Waiting))"
    using assms(3)
    by (auto simp: good_line_def decode_def split: read_result.splits)
  with pre k show ?thesis
    by auto
qed

lemma event_stream_exits:
  assumes "relay_exits dumps os payload n rc" and "n < fuel"
  shows "\<exists>cmd pre. event_stream fuel dumps os payload =
           (Yield Start # Do (Spawn cmd None) # pre @
              [Do ReadLine, Do Wait,
               Yield (if rc = 0 then Complete else Error (ReturnCode rc)), Yield End],
            True) \<and>
         (\<forall>e\<in>set (events pre). is_data e) \<and> length (events pre) \<le> n"
proof -
  from assms(1) obtain cmd process where
    c: "playbook_command dumps payload = Inr cmd" "os cmd None = Inr process"
      "\<forall>j<n. good_line (readline process j)" "readline process n = Read []"
      "wait process = Some rc"
    by (auto simp: relay_exits_def split: sum.splits)
  have "\<not> good_line (readline process n)"
    using c(4) by (simp add: good_line_def)
  from read_lines_stop [OF c(3) assms(2) this] c(4) obtain pre where
    pre: "read_lines fuel (readline process) 0 = (pre @ [Do ReadLine], Returned)"
      "\<forall>e\<in>set (events pre). is_data e" "length (events pre) \<le> n"
    by auto
  show ?thesis
    by (rule exI [of _ cmd], rule exI [of _ pre])
      (simp add: event_stream_def try_block_def c pre)
qed

lemma event_stream_fault:
  assumes "relay_fault dumps os payload n e" and "n < fuel"
  shows "\<exists>pre. event_stream fuel dumps os payload =
           (Yield Start # pre @ [Yield (Error (Fault e)), Yield End], True) \<and>
         (\<forall>e\<in>set (events pre). is_data e) \<and> length (events pre) \<le> n"
proof (cases "playbook_command dumps payload")
  case (Inl e')
  with assms(1) have "e' = e"
    by (simp add: relay_fault_def)
  with Inl show ?thesis
    by (intro exI [of _ "[]"]) (simp add: event_stream_def try_block_def)
next
  case (Inr cmd)
  show ?thesis
  proof (cases "os cmd None")
    case (Inl e')
    with assms(1) Inr have "e' = e"
      by (simp add: relay_fault_def)
    with Inl Inr show ?thesis
      by (intro exI [of _ "[Do (Spawn cmd None)]"]) (simp add: event_stream_def try_block_def)
  next
    case (Inr process)
    with assms(1) \<open>playbook_command dumps payload = Inr cmd\<close> have
      c: "\<forall>j<n. good_line (readline process j)" "read_raises (readline process n) e"
      by (simp_all add: relay_fault_def)
    have ng: "\<not> good_line (readline process n)"
      using c(2) by (cases "readline process n") (auto simp: good_line_def)
    have "(case readline process n of
              Read l \<Rightarrow> if l = [] then Returned else Threw (UnicodeDecodeError l)
            | ReadError e \<Rightarrow> Threw e
            | Blocked \<Rightarrow> Waiting) = Threw e"
      using c(2) by (cases "readline process n") auto
    with read_lines_stop [OF c(1) assms(2) ng] obtain pre where
      pre: "read_lines fuel (readline process) 0 = (pre @ [Do ReadLine], Threw e)"
        "\<forall>e\<in>set (events pre). is_data e" "length (events pre) \<le> n"
      by auto
    show ?thesis
      by (rule exI [of _ "Do (Spawn cmd None) # pre @ [Do ReadLine]"])
        (simp add: event_stream_def try_block_def Inr
          \<open>playbook_command dumps payload = Inr cmd\<close> pre events_append)
  qed
qed


text \<open>The generator is exhausted in these two ways only.\<close>

lemma read_lines_stopped:
  assumes "snd (read_lines fuel rd i) \<noteq> Waiting"
  shows "\<exists>n<fuel. (\<forall>j<n. good_line (rd (i + j))) \<and>
           (case snd (read_lines fuel rd i) of
              Returned \<Rightarrow> rd (i + n) = Read []
            | Threw e \<Rightarrow> read_raises (rd (i + n)) e
            | Waiting \<Rightarrow> False)"
  using assms
proof (induction fuel arbitrary: i)
  case 0
  then show ?case by simp
next
  case (Suc fuel)
  show ?case
  proof (cases "good_line (rd i)")
    case False
    with Suc.prems show ?thesis
      by (intro exI [of _ 0])
        (auto simp: good_line_def decode_def split: read_result.splits if_splits)
  next
    case True
    then obtain l where l: "rd i = Read l" "l \<noteq> []" "utf8_valid l"
      by (auto simp: good_line_def split: read_result.splits)
    have s: "snd (read_lines (Suc fuel) rd i) = snd (read_lines fuel rd (Suc i))"
      using read_lines_good [of rd i l fuel, OF l] by (simp del: read_lines.simps)
    with Suc.prems have "snd (read_lines fuel rd (Suc i)) \<noteq> Waiting"
      by simp
    from Suc.IH [OF this] obtain n where
      n: "n < fuel" "\<forall>j<n. good_line (rd (Suc i + j))"
        "case snd (read_lines fuel rd (Suc i)) of
           Returned \<Rightarrow> rd (Suc i + n) = Read []
         | Threw e \<Rightarrow> read_raises (rd (Suc i + n)) e
         | Waiting \<Rightarrow> False"
      by blast
    have "\<forall>j<Suc n. good_line (rd (i + j))"
    proof (intro allI impI)
      fix j assume "j < Suc n"
      then show "good_line (rd (i + j))"
        using True n(2) by (cases j) auto
    qed
    with n(1,3) show ?thesis
      unfolding s by (intro exI [of _ "Suc n"]) (auto split: outcome.splits)
  qed
qed

lemma event_stream_exhausted:
  assumes "snd (event_stream fuel dumps os payload)"
  shows "\<exists>n. (\<exists>rc. relay_exits dumps os payload n rc) \<or>
              (\<exists>e. relay_fault dumps os payload n e)"
proof (cases "playbook_command dumps payload")
  case (Inl e)
  then have "relay_fault dumps os payload 0 e"
    by (simp add: relay_fault_def)
  then show ?thesis by blast
next
  case (Inr cmd)
  show ?thesis
  proof (cases "os cmd None")
    case (Inl e)
    with Inr have "relay_fault dumps os payload 0 e"
      by (simp add: relay_fault_def)
    then show ?thesis by blast
  next
    case (Inr process)
    note c = \<open>playbook_command dumps payload = Inr cmd\<close> Inr
    obtain steps r where s: "read_lines fuel (readline process) 0 = (steps, r)"
      by (cases "read_lines fuel (readline process) 0")
    from assms c s have r: "r \<noteq> Waiting"
      by (auto simp: event_stream_def try_block_def split: option.splits)
    with read_lines_stopped [of fuel "readline process" 0] s obtain n where
      n0: "\<forall>j<n. good_line (readline process (0 + j))"
        "case r of Returned \<Rightarrow> readline process (0 + n) = Read []
         | Threw e \<Rightarrow> read_raises (readline process (0 + n)) e | Waiting \<Rightarrow> False"
      by auto
    then have n: "\<forall>j<n. good_line (readline process j)"
        "case r of Returned \<Rightarrow> readline process n = Read []
         | Threw e \<Rightarrow> read_raises (readline process n) e | Waiting \<Rightarrow> False"
      by (cases r; simp)+
    show ?thesis
    proof (cases r)
      case Returned
      with assms c s obtain rc where "wait process = Some rc"
        by (cases "wait process") (auto simp: event_stream_def try_block_def)
      with n Returned c have "relay_exits dumps os payload n rc"
        by (simp add: relay_exits_def)
      then show ?thesis by blast
    next
      case (Threw e)
      with n c have "relay_fault dumps os payload n e"
        by (simp add: relay_fault_def)
      then show ?thesis by blast
    next
      case Waiting
      with r show ?thesis by simp
    qed
  qed
qed

text \<open>
  Until then, what has been yielded is \<open>Start\<close> and \<open>Data\<close> events: \<open>End\<close> is yielded by
  an exhausted generator only.
\<close>

lemma read_lines_data: "\<forall>e\<in>set (events (fst (read_lines fuel rd i))). is_data e"
proof (induction fuel arbitrary: i)
  case 0
  show ?case by simp
next
  case (Suc fuel)
  show ?case
    using Suc [of "Suc i"]
    by (auto simp: events_append Let_def split: read_result.splits sum.splits prod.splits)
qed

lemma event_stream_pending:
  assumes "\<not> snd (event_stream fuel dumps os payload)"
  shows "\<exists>datas. events (fst (event_stream fuel dumps os payload)) = Start # datas \<and>
                 list_all is_data datas"
proof -
  obtain steps r where t: "try_block fuel dumps os payload = (steps, r)"
    by (cases "try_block fuel dumps os payload")
  with assms have r: "r = Waiting"
    by (cases r) (simp_all add: event_stream_def)
  from t r obtain cmd process where
    c: "playbook_command dumps payload = Inr cmd" "os cmd None = Inr process"
    by (auto simp: try_block_def split: sum.splits)
  obtain ss q where s: "read_lines fuel (readline process) 0 = (ss, q)"
    by (cases "read_lines fuel (readline process) 0")
  with read_lines_data [of fuel "readline process" 0]
  have d: "\<forall>e\<in>set (events ss). is_data e"
    by simp
  from t r c s have "events steps = events ss"
    by (cases q; cases "wait process") (auto simp: try_block_def events_append)
  with d t r show ?thesis
    by (intro exI [of _ "events ss"]) (simp add: event_stream_def list_all_iff)
qed

text \<open>
  The events are told apart by the first bytes of their frames, whatever the payloads.
\<close>

lemma frame_kind:
  "(take 6 (frame d s e) = ''data: '' \<longleftrightarrow> is_data e) \<and>
   (take 9 (frame d s e) = ''event: st'' \<longleftrightarrow> e = Start) \<and>
   (take 9 (frame d s e) = ''event: co'' \<longleftrightarrow> e = Complete) \<and>
   (take 9 (frame d s e) = ''event: er'' \<longleftrightarrow> (\<exists>p. e = Error p)) \<and>
   (take 9 (frame d s e) = ''event: en'' \<longleftrightarrow> e = End)"
  by (cases "(d, s, e)" rule: frame.cases) (simp_all add: nl_def)

lemma data_not_other: "is_data e \<Longrightarrow> e \<noteq> Start \<and> e \<noteq> End \<and> \<not> is_terminal e"
  by (cases e) simp_all

lemma all_data_clean:
  assumes "\<forall>e\<in>set ds. is_data e"
  shows "Start \<notin> set ds \<and> End \<notin> set ds \<and> filter is_terminal ds = []"
  using assms by (induction ds) (auto dest: data_not_other)

lemma good_line_writes:
  assumes "\<forall>l\<in>set ls. l \<noteq> [] \<and> utf8_valid l"
  shows "\<forall>j<length ls. good_line (writes ls j)"
  using assms by (simp add: good_line_def writes_def)

text \<open>
  C1. On each way an invocation ends (the child exits with status zero or not, or an
  exception is raised in the \<open>try\<close>), the generator runs to exhaustion, and the events
  it has yielded are one \<open>Start\<close> first, one \<open>End\<close> last, and between them neither of the
  two and at most one \<open>Complete\<close> or \<open>Error\<close>.
\<close>

theorem event_stream_start_end:
  assumes "relay_exits dumps os payload n rc \<or> relay_fault dumps os payload n e"
    and "n < fuel"
  shows "snd (event_stream fuel dumps os payload) \<and>
         (\<exists>mid. events (fst (event_stream fuel dumps os payload)) = Start # mid @ [End] \<and>
                Start \<notin> set mid \<and> End \<notin> set mid \<and> length (filter is_terminal mid) \<le> 1)"
  using assms(1)
proof
  assume "relay_exits dumps os payload n rc"
  from event_stream_exits [OF this assms(2)] obtain cmd pre where
    pre: "event_stream fuel dumps os payload =
           (Yield Start # Do (Spawn cmd None) # pre @
              [Do ReadLine, Do Wait,
               Yield (if rc = 0 then Complete else Error (ReturnCode rc)), Yield End],
            True)"
      "\<forall>e\<in>set (events pre). is_data e"
    by blast
  let ?t = "if rc = 0 then Complete else Error (ReturnCode rc)"
  have "events (fst (event_stream fuel dumps os payload)) =
          Start # (events pre @ [?t]) @ [End]"
    by (simp add: pre(1) events_append)
  moreover have "Start \<notin> set (events pre @ [?t])" "End \<notin> set (events pre @ [?t])"
    "length (filter is_terminal (events pre @ [?t])) \<le> 1"
    using all_data_clean [OF pre(2)] by simp_all
  ultimately show ?thesis
    using pre(1) by (intro conjI exI [of _ "events pre @ [?t]"]) simp_all
next
  assume "relay_fault dumps os payload n e"
  from event_stream_fault [OF this assms(2)] obtain pre where
    pre: "event_stream fuel dumps os payload =
           (Yield Start # pre @ [Yield (Error (Fault e)), Yield End], True)"
      "\<forall>e\<in>set (events pre). is_data e"
    by blast
  have "events (fst (event_stream fuel dumps os payload)) =
          Start # (events pre @ [Error (Fault e)]) @ [End]"
    by (simp add: pre(1) events_append)
  moreover have "Start \<notin> set (events pre @ [Error (Fault e)])"
    "End \<notin> set (events pre @ [Error (Fault e)])"
    "length (filter is_terminal (events pre @ [Error (Fault e)])) \<le> 1"
    using all_data_clean [OF pre(2)] by simp_all
  ultimately show ?thesis
    using pre(1) by (intro conjI exI [of _ "events pre @ [Error (Fault e)]"]) simp_all
qed

text \<open>A child that writes \<open>ok\<close> and a blank line and exits with status 0.\<close>

theorem event_stream_start_end_witness:
  "snd (event_stream 3 (\<lambda>ev. Inr ''{}'')
          (\<lambda>cmd env. Inr \<lparr>readline = writes [''ok'' @ nl, nl], wait = Some 0\<rparr>)
          \<lparr>playbook = ''site.yml'', inventory = None,
           extra_vars = None :: (string \<times> unit) list option\<rparr>) \<and>
   hd (events (fst (event_stream 3 (\<lambda>ev. Inr ''{}'')
          (\<lambda>cmd env. Inr \<lparr>readline = writes [''ok'' @ nl, nl], wait = Some 0\<rparr>)
          \<lparr>playbook = ''site.yml'', inventory = None,
           extra_vars = None :: (string \<times> unit) list option\<rparr>))) = Start \<and>
   last (events (fst (event_stream 3 (\<lambda>ev. Inr ''{}'')
          (\<lambda>cmd env. Inr \<lparr>readline = writes [''ok'' @ nl, nl], wait = Some 0\<rparr>)
          \<lparr>playbook = ''site.yml'', inventory = None,
           extra_vars = None :: (string \<times> unit) list option\<rparr>))) = End"
proof -
  let ?os = "\<lambda>(cmd :: string list) (env :: env option).
      (Inr \<lparr>readline = writes [''ok'' @ nl, nl], wait = Some 0\<rparr> :: py_exception + relay_child)"
  let ?p = "\<lparr>playbook = ''site.yml'', inventory = None,
           extra_vars = None :: (string \<times> unit) list option\<rparr>"
  let ?d = "\<lambda>ev :: (string \<times> unit) list. (Inr ''{}'' :: py_exception + string)"
  have "\<forall>l\<in>set [''ok'' @ nl, nl]. l \<noteq> [] \<and> utf8_valid l"
    by (simp add: nl_def byte_def)
  from good_line_writes [OF this]
  have "relay_exits ?d ?os ?p 2 0"
    by (simp add: relay_exits_def playbook_command_def writes_def)
  then have "relay_exits ?d ?os ?p 2 0 \<or> relay_fault ?d ?os ?p 2 (Raised '''' '''')"
    by (rule disjI1)
  from event_stream_start_end [OF this, of 3]
  show ?thesis
    by auto
qed




text \<open>
  C7. When \<open>json.dumps\<close>, the launch, a read or the decoding of a line raises \<open>e\<close>, the
  generator still runs to exhaustion (its result has no exceptional outcome): it yields
  \<open>Error\<close> carrying \<open>e\<close> and then \<open>End\<close>, and nothing else after the exception. The
  events before are \<open>Start\<close> and the \<open>Data\<close> of the lines read until then, none at all
  when the launch itself failed.
\<close>

theorem event_stream_fault_caught:
  assumes "relay_fault dumps os payload n e" and "n < fuel"
  shows "snd (event_stream fuel dumps os payload) \<and>
         (\<exists>datas. events (fst (event_stream fuel dumps os payload)) =
                     Start # datas @ [Error (Fault e), End] \<and>
                   list_all is_data datas \<and> length datas \<le> n)"
proof -
  from event_stream_fault [OF assms] obtain pre where
    pre: "event_stream fuel dumps os payload =
           (Yield Start # pre @ [Yield (Error (Fault e)), Yield End], True)"
      "\<forall>e\<in>set (events pre). is_data e" "length (events pre) \<le> n"
    by blast
  show ?thesis
    using pre(2,3)
    by (intro conjI exI [of _ "events pre"]) (simp_all add: pre(1) events_append list_all_iff)
qed

text \<open>The executable does not exist: \<open>Start\<close>, \<open>Error\<close>, \<open>End\<close>.\<close>

theorem event_stream_fault_caught_witness:
  "events (fst (event_stream 1 (\<lambda>ev. Inr ''{}'')
          (\<lambda>cmd env. Inl (Raised ''FileNotFoundError'' ''No such file or directory''))
          \<lparr>playbook = ''site.yml'', inventory = None,
           extra_vars = None :: (string \<times> unit) list option\<rparr>)) =
     [Start, Error (Fault (Raised ''FileNotFoundError'' ''No such file or directory'')), End]"
proof -
  let ?os = "\<lambda>(cmd :: string list) (env :: env option).
      (Inl (Raised ''FileNotFoundError'' ''No such file or directory'')
         :: py_exception + relay_child)"
  let ?p = "\<lparr>playbook = ''site.yml'', inventory = None,
           extra_vars = None :: (string \<times> unit) list option\<rparr>"
  let ?d = "\<lambda>ev :: (string \<times> unit) list. (Inr ''{}'' :: py_exception + string)"
  have "relay_fault ?d ?os ?p 0 (Raised ''FileNotFoundError'' ''No such file or directory'')"
    by (simp add: relay_fault_def playbook_command_def)
  from event_stream_fault_caught [OF this, of 1]
  show ?thesis
    by auto
qed


lemma read_lines_all:
  assumes "\<forall>l\<in>set ls. l \<noteq> [] \<and> utf8_valid l"
    and "\<forall>j<length ls. rd (i + j) = Read (ls ! j)"
    and "length ls \<le> fuel"
  shows "read_lines fuel rd i =
           (concat (map (\<lambda>l. Do ReadLine #
                              (if rstrip l \<noteq> [] then [Yield (Data (rstrip l))] else [])) ls)
              @ fst (read_lines (fuel - length ls) rd (i + length ls)),
            snd (read_lines (fuel - length ls) rd (i + length ls)))"
  using assms
proof (induction ls arbitrary: i fuel)
  case Nil
  show ?case by simp
next
  case (Cons l ls)
  from Cons.prems(3) obtain k where k: "fuel = Suc k" and lk: "length ls \<le> k"
    by (cases fuel) auto
  have l: "rd i = Read l" "l \<noteq> []" "utf8_valid l"
    using Cons.prems(1,2) by auto
  have "\<forall>j<length ls. rd (Suc i + j) = Read (ls ! j)"
    using Cons.prems(2) by auto
  from Cons.IH [OF _ this lk] Cons.prems(1)
  have "read_lines k rd (Suc i) =
           (concat (map (\<lambda>l. Do ReadLine #
                              (if rstrip l \<noteq> [] then [Yield (Data (rstrip l))] else [])) ls)
              @ fst (read_lines (k - length ls) rd (Suc i + length ls)),
            snd (read_lines (k - length ls) rd (Suc i + length ls)))"
    by simp
  then show ?case
    unfolding k read_lines_good [of rd i l k, OF l] by simp
qed

lemma events_lines:
  "events (concat (map (\<lambda>l. Do ReadLine #
                              (if rstrip l \<noteq> [] then [Yield (Data (rstrip l))] else [])) ls)) =
     map Data (filter (\<lambda>t. t \<noteq> []) (map rstrip ls))"
  by (induction ls) (simp_all add: events_append)

lemma filter_is_data_map: "filter is_data (map Data ts) = map Data ts"
  by (induction ts) simp_all

text \<open>
  C5, as amended. When the child is launched and writes the lines \<open>ls\<close>, each non-empty
  and well-formed UTF-8, and then closes its output, the \<open>Data\<close> events yielded are, in
  the order of the lines, the texts of the lines with their trailing whitespace removed
  (leading whitespace is kept), for exactly the lines that are not blank, that is, not
  made of whitespace alone: as many \<open>Data\<close> events as there are such lines, and none for
  a blank line.
\<close>

theorem event_stream_data:
  assumes "playbook_command dumps payload = Inr cmd" and "os cmd None = Inr process"
    and "readline process = writes ls"
    and "\<forall>l\<in>set ls. l \<noteq> [] \<and> utf8_valid l"
    and "length ls < fuel"
  shows "filter is_data (events (fst (event_stream fuel dumps os payload))) =
           map Data (filter (\<lambda>t. t \<noteq> []) (map rstrip ls)) \<and>
         length (filter is_data (events (fst (event_stream fuel dumps os payload)))) =
           length (filter (\<lambda>l. rstrip l \<noteq> []) ls)"
proof -
  let ?body = "concat (map (\<lambda>l. Do ReadLine #
                  (if rstrip l \<noteq> [] then [Yield (Data (rstrip l))] else [])) ls)"
  from assms(5) obtain k where k: "fuel - length ls = Suc k"
    by (cases "fuel - length ls") auto
  have "\<forall>j<length ls. writes ls (0 + j) = Read (ls ! j)"
    by (simp add: writes_def)
  from read_lines_all [OF assms(4) this, of fuel] assms(5)
  have "read_lines fuel (writes ls) 0 =
          (?body @ fst (read_lines (Suc k) (writes ls) (length ls)),
           snd (read_lines (Suc k) (writes ls) (length ls)))"
    by (simp add: k)
  then have r: "read_lines fuel (readline process) 0 = (?body @ [Do ReadLine], Returned)"
    by (simp add: assms(3) writes_def)
  have "filter is_data (events (fst (event_stream fuel dumps os payload))) =
          map Data (filter (\<lambda>t. t \<noteq> []) (map rstrip ls))"
    by (cases "wait process")
      (simp_all add: event_stream_def try_block_def assms(1,2) r events_append events_lines
        filter_is_data_map)
  then show ?thesis
    by (simp add: filter_map comp_def)
qed

text \<open>The lines \<open>a\<close>, a blank line, and \<open>b\<close> with blanks on both sides.\<close>

theorem event_stream_data_witness:
  "filter is_data (events (fst (event_stream 4 (\<lambda>ev. Inr ''{}'')
          (\<lambda>cmd env. Inr \<lparr>readline = writes [''a'' @ nl, nl, ''  b  '' @ nl], wait = Some 0\<rparr>)
          \<lparr>playbook = ''site.yml'', inventory = None,
           extra_vars = None :: (string \<times> unit) list option\<rparr>))) =
     [Data ''a'', Data ''  b'']"
proof -
  let ?c = "\<lparr>readline = writes [''a'' @ nl, nl, ''  b  '' @ nl], wait = Some 0\<rparr>"
  let ?os = "\<lambda>(cmd :: string list) (env :: env option). (Inr ?c :: py_exception + relay_child)"
  let ?p = "\<lparr>playbook = ''site.yml'', inventory = None,
           extra_vars = None :: (string \<times> unit) list option\<rparr>"
  let ?d = "\<lambda>ev :: (string \<times> unit) list. (Inr ''{}'' :: py_exception + string)"
  have v: "\<forall>l\<in>set [''a'' @ nl, nl, ''  b  '' @ nl]. l \<noteq> [] \<and> utf8_valid l"
    by (simp add: nl_def byte_def)
  have c: "playbook_command ?d ?p = Inr [''ansible-playbook'', ''site.yml'', ''-i'', ''inventory.ini'']"
    by (simp add: playbook_command_def)
  have o: "?os [''ansible-playbook'', ''site.yml'', ''-i'', ''inventory.ini''] None = Inr ?c"
    by simp
  have w: "readline ?c = writes [''a'' @ nl, nl, ''  b  '' @ nl]"
    by simp
  from event_stream_data [OF c o w v, of 4]
  show ?thesis
    by (simp add: nl_def rstrip_def ws1_def ws2_def ws3_def byte_def)
qed

text \<open>
  Two non-empty lines, the first of which is the byte \<open>0xFF\<close>: the codec raises on it, the
  loop is left, and no \<open>Data\<close> event is yielded for either line.
\<close>

theorem event_stream_data_counterexample:
  "events (fst (event_stream 3 (\<lambda>ev. Inr ''{}'')
          (\<lambda>cmd env. Inr \<lparr>readline = writes [[CHR 0xFF] @ nl, ''ok'' @ nl], wait = Some 0\<rparr>)
          \<lparr>playbook = ''site.yml'', inventory = None,
           extra_vars = None :: (string \<times> unit) list option\<rparr>)) =
     [Start, Error (Fault (UnicodeDecodeError ([CHR 0xFF] @ nl))), End]"
  by (simp add: event_stream_def try_block_def playbook_command_def writes_def nl_def
      decode_def byte_def numeral_3_eq_3)

lemma read_lines_no_kill: "Do Kill \<notin> set (fst (read_lines fuel rd i))"
proof (induction fuel arbitrary: i)
  case 0
  show ?case by simp
next
  case (Suc fuel)
  show ?case
    using Suc [of "Suc i"]
    by (auto simp: Let_def split: read_result.splits sum.splits prod.splits)
qed

lemma try_block_no_kill: "Do Kill \<notin> set (fst (try_block fuel dumps os payload))"
proof (cases "playbook_command dumps payload")
  case (Inl e)
  then show ?thesis by (simp add: try_block_def)
next
  case (Inr cmd)
  show ?thesis
  proof (cases "os cmd None")
    case (Inl e)
    with Inr show ?thesis by (simp add: try_block_def)
  next
    case (Inr process)
    obtain steps r where s: "read_lines fuel (readline process) 0 = (steps, r)"
      by (cases "read_lines fuel (readline process) 0")
    with read_lines_no_kill [of fuel "readline process" 0] have "Do Kill \<notin> set steps"
      by simp
    with Inr \<open>playbook_command dumps payload = Inr cmd\<close> s show ?thesis
      by (cases r; cases "wait process") (simp_all add: try_block_def)
  qed
qed

text \<open>
  C8, as amended. The relay performs no \<open>kill\<close> on the child on any path: not in a run
  observed to any length, and not when the consumer abandons the stream after any number
  of steps. An abandoned generator stops where it is suspended; a child that is still
  running then is left running by the relay.
\<close>

theorem event_stream_never_kills:
  "Do Kill \<notin> set (abandoned m (fst (event_stream fuel dumps os payload)))"
proof -
  have "Do Kill \<notin> set (fst (event_stream fuel dumps os payload))"
    using try_block_no_kill [of fuel dumps os payload]
    by (auto simp: event_stream_def split: prod.splits outcome.splits)
  then show ?thesis
    unfolding abandoned_def by (auto dest: in_set_takeD)
qed

text \<open>
  A child that writes \<open>a\<close> and, later, \<open>b\<close>. The consumer disconnects on receiving the
  first \<open>Data\<close> event: the relay has launched the child and read one line, and does
  nothing more, while the child has its second line still to write.
\<close>

theorem event_stream_never_kills_counterexample:
  "abandoned 4 (fst (event_stream 3 (\<lambda>ev. Inr ''{}'')
          (\<lambda>cmd env. Inr \<lparr>readline = writes [''a'' @ nl, ''b'' @ nl], wait = Some 0\<rparr>)
          \<lparr>playbook = ''site.yml'', inventory = None,
           extra_vars = None :: (string \<times> unit) list option\<rparr>)) =
     [Yield Start, Do (Spawn [''ansible-playbook'', ''site.yml'', ''-i'', ''inventory.ini''] None),
      Do ReadLine, Yield (Data ''a'')] \<and>
   writes [''a'' @ nl, ''b'' @ nl] 1 = Read (''b'' @ nl)"
  by (simp add: abandoned_def event_stream_def try_block_def playbook_command_def writes_def
      nl_def decode_def byte_def rstrip_def ws1_def ws2_def ws3_def numeral_3_eq_3)

section \<open>Confinement of the playbook file\<close>

lemma basename_no_slash: "CHR ''/'' \<notin> set (basename p)"
  unfolding basename_def set_rev
  by (metis (mono_tags, lifting) set_takeWhileD)

lemma PLAYBOOKS_DIR_end: "PLAYBOOKS_DIR b \<noteq> [] \<and> last (PLAYBOOKS_DIR b) \<noteq> CHR ''/''"
  by (simp add: PLAYBOOKS_DIR_def path_join_def)

lemma path_join_name:
  assumes "name \<noteq> []" and "CHR ''/'' \<notin> set name"
  shows "path_join (PLAYBOOKS_DIR b) name = PLAYBOOKS_DIR b @ ''/'' @ name"
proof -
  from assms have "take 1 name \<noteq> ''/''"
    by (cases name) auto
  with PLAYBOOKS_DIR_end [of b] show ?thesis
    by (simp add: path_join_def)
qed

lemma basename_append:
  assumes "CHR ''/'' \<notin> set name"
  shows "basename (d @ ''/'' @ name) = name"
proof -
  have "takeWhile (\<lambda>c. c \<noteq> CHR ''/'') (rev name @ CHR ''/'' # rev d) = rev name"
    using assms by (auto simp: takeWhile_tail)
  then show ?thesis
    by (simp add: basename_def)
qed


text \<open>
  C9. The name used is the basename of the stripped \<open>file_name\<close>, which contains no
  path separator. When it is empty the error dictionary is returned and the file system
  is left as it was. Otherwise the only file whose content can differ after the call is
  the one at \<open>PLAYBOOKS_DIR/name\<close>, with \<open>name\<close> that basename, which is then neither
  \<open>.\<close> nor \<open>..\<close>, and its content is the data given: no file outside the playbooks
  directory is created or modified, whatever the input.
\<close>

theorem generate_playbook_confined:
  "CHR ''/'' \<notin> set (basename (strip (file_name input))) \<and>
   (basename (strip (file_name input)) = [] \<longrightarrow>
      generate_playbook BASE_DIR fs input =
        (Inr [(''error'', PyStr ''file_name must be provided'')], fs)) \<and>
   (\<forall>p. files (snd (generate_playbook BASE_DIR fs input)) p \<noteq> files fs p \<longrightarrow>
        p = PLAYBOOKS_DIR BASE_DIR @ ''/'' @ basename (strip (file_name input)) \<and>
        basename p = basename (strip (file_name input)) \<and>
        basename p \<noteq> [] \<and> basename p \<noteq> ''.'' \<and> basename p \<noteq> ''..'' \<and>
        files (snd (generate_playbook BASE_DIR fs input)) p = Some (data input))"
proof (intro conjI allI impI)
  let ?name = "basename (strip (file_name input))"
  show ns: "CHR ''/'' \<notin> set ?name"
    by (rule basename_no_slash)
  show "generate_playbook BASE_DIR fs input =
      (Inr [(''error'', PyStr ''file_name must be provided'')], fs)" if "?name = []"
    using that by (simp add: generate_playbook_def)
  fix p
  assume ch: "files (snd (generate_playbook BASE_DIR fs input)) p \<noteq> files fs p"
  have ne: "?name \<noteq> []"
  proof
    assume "?name = []"
    then have "snd (generate_playbook BASE_DIR fs input) = fs"
      by (simp add: generate_playbook_def)
    with ch show False by simp
  qed
  let ?t = "PLAYBOOKS_DIR BASE_DIR @ ''/'' @ ?name"
  have t: "path_join (PLAYBOOKS_DIR BASE_DIR) ?name = ?t"
    by (rule path_join_name [OF ne ns])
  have bt: "basename ?t = ?name"
    by (rule basename_append [OF ns])
  have wf: "write_file ?t d f =
      (if ?name = ''.'' \<or> ?name = ''..'' then Inl (IsADirectoryError ?t)
       else case refuses_open f ?t of
              Some e \<Rightarrow> Inl e
            | None \<Rightarrow> Inr (f\<lparr>files := (files f)(?t \<mapsto> d)\<rparr>))" for d f
    unfolding write_file_def bt ..
  from ch ne have w: "p = ?t \<and> ?name \<noteq> ''.'' \<and> ?name \<noteq> ''..'' \<and>
      files (snd (generate_playbook BASE_DIR fs input)) p = Some (data input)"
    unfolding generate_playbook_def Let_def t wf
    by (auto simp: makedirs_def split: if_splits option.splits)
  from w show "p = ?t" by blast
  from w bt show "basename p = ?name" by metis
  from w bt ne show "basename p \<noteq> []" by metis
  from w bt show "basename p \<noteq> ''.''" by metis
  from w bt show "basename p \<noteq> ''..''" by metis
  from w show "files (snd (generate_playbook BASE_DIR fs input)) p = Some (data input)"
    by blast
qed


text \<open>
  A name that climbs out of the directory leaves \<open>/etc/passwd\<close> untouched; a name that
  ends in a separator has an empty basename.
\<close>

theorem generate_playbook_confined_witness:
  "files (snd (generate_playbook ''/srv/app''
       \<lparr>files = [''/etc/passwd'' \<mapsto> ''root''], refuses_makedirs = (\<lambda>p. None),
        refuses_open = (\<lambda>p. None)\<rparr>
       \<lparr>file_name = '' ../../etc/passwd '', data = ''x''\<rparr>)) ''/etc/passwd'' = Some ''root'' \<and>
   generate_playbook ''/srv/app''
       \<lparr>files = [''/etc/passwd'' \<mapsto> ''root''], refuses_makedirs = (\<lambda>p. None),
        refuses_open = (\<lambda>p. None)\<rparr>
       \<lparr>file_name = '' playbooks/ '', data = ''x''\<rparr> =
     (Inr [(''error'', PyStr ''file_name must be provided'')],
      \<lparr>files = [''/etc/passwd'' \<mapsto> ''root''], refuses_makedirs = (\<lambda>p. None),
        refuses_open = (\<lambda>p. None)\<rparr>)"
proof -
  let ?fs = "\<lparr>files = [''/etc/passwd'' \<mapsto> ''root''], refuses_makedirs = (\<lambda>p. None),
        refuses_open = (\<lambda>p. None)\<rparr>"
  have a: "basename (strip '' ../../etc/passwd '') = ''passwd''"
    by (simp add: strip_def rstrip_def basename_def ws1_def ws2_def ws3_def byte_def)
  have b: "basename (strip '' playbooks/ '') = []"
    by (simp add: strip_def rstrip_def basename_def ws1_def ws2_def ws3_def byte_def)
  have "files (snd (generate_playbook ''/srv/app'' ?fs
          \<lparr>file_name = '' ../../etc/passwd '', data = ''x''\<rparr>)) ''/etc/passwd'' =
        files ?fs ''/etc/passwd''"
    using generate_playbook_confined
      [of "\<lparr>file_name = '' ../../etc/passwd '', data = ''x''\<rparr>" "''/srv/app''" ?fs]
    by (auto simp: a PLAYBOOKS_DIR_def path_join_def dest!: spec [of _ "''/etc/passwd''"])
  moreover have "generate_playbook ''/srv/app'' ?fs
       \<lparr>file_name = '' playbooks/ '', data = ''x''\<rparr> =
     (Inr [(''error'', PyStr ''file_name must be provided'')], ?fs)"
    using generate_playbook_confined
      [of "\<lparr>file_name = '' playbooks/ '', data = ''x''\<rparr>" "''/srv/app''" ?fs]
    by (simp add: b)
  ultimately show ?thesis
    by simp
qed

section \<open>Results of the inventory listing\<close>

text \<open>
  C10, as amended. When the inventory file does not exist, the endpoint returns the error
  dictionary and performs no process operation. When it exists, an exception raised by
  the launch reaches the caller, and the call does not return when \<open>communicate()\<close>
  never completes; output that has to be decoded and is not well-formed UTF-8 makes the
  codec's exception reach the caller. When the launched command exits with a non-zero
  status and its stderr decodes, the endpoint returns its stderr and return code only,
  whatever its stdout is and whatever \<open>json.loads\<close> would do with it. When the command
  exits with status zero and its stdout decodes, the endpoint returns the value parsed;
  when \<open>json.loads\<close> raises \<open>JSONDecodeError\<close>, it returns the raw text under the key
  \<open>output\<close>; any other exception of \<open>json.loads\<close> reaches the caller.
\<close>

theorem list_inventory_results:
  "(\<not> path_exists f \<longrightarrow>
      list_inventory path_exists json_loads os f =
        (Some (Inr (Dict [(''error'', PyStr (''Inventory file not found: '' @ f))])), [])) \<and>
   (path_exists f \<and> os [''ansible-inventory'', ''-i'', f, ''--list''] None = Inl e \<longrightarrow>
      fst (list_inventory path_exists json_loads os f) = Some (Inl e)) \<and>
   (path_exists f \<and> os [''ansible-inventory'', ''-i'', f, ''--list''] None = Inr proc \<and>
    communicate proc = None \<longrightarrow>
      fst (list_inventory path_exists json_loads os f) = None) \<and>
   (path_exists f \<and> os [''ansible-inventory'', ''-i'', f, ''--list''] None = Inr proc \<and>
    communicate proc = Some (out, err, rc) \<and> rc \<noteq> 0 \<and> \<not> utf8_valid err \<longrightarrow>
      fst (list_inventory path_exists json_loads os f) = Some (Inl (UnicodeDecodeError err))) \<and>
   (path_exists f \<and> os [''ansible-inventory'', ''-i'', f, ''--list''] None = Inr proc \<and>
    communicate proc = Some (out, err, 0) \<and> \<not> utf8_valid out \<longrightarrow>
      fst (list_inventory path_exists json_loads os f) = Some (Inl (UnicodeDecodeError out))) \<and>
   (path_exists f \<and> os [''ansible-inventory'', ''-i'', f, ''--list''] None = Inr proc \<and>
    communicate proc = Some (out, err, rc) \<and> rc \<noteq> 0 \<and> utf8_valid err \<longrightarrow>
      fst (list_inventory path_exists json_loads os f) =
        Some (Inr (Dict [(''stderr'', PyStr err), (''returncode'', PyInt rc)]))) \<and>
   (path_exists f \<and> os [''ansible-inventory'', ''-i'', f, ''--list''] None = Inr proc \<and>
    communicate proc = Some (out, err, 0) \<and> utf8_valid out \<and>
    json_loads out = Inl (Raised ''JSONDecodeError'' msg) \<longrightarrow>
      fst (list_inventory path_exists json_loads os f) =
        Some (Inr (Dict [(''output'', PyStr out)]))) \<and>
   (path_exists f \<and> os [''ansible-inventory'', ''-i'', f, ''--list''] None = Inr proc \<and>
    communicate proc = Some (out, err, 0) \<and> utf8_valid out \<and> json_loads out = Inl x \<and>
    (\<forall>m. x \<noteq> Raised ''JSONDecodeError'' m) \<longrightarrow>
      fst (list_inventory path_exists json_loads os f) = Some (Inl x)) \<and>
   (path_exists f \<and> os [''ansible-inventory'', ''-i'', f, ''--list''] None = Inr proc \<and>
    communicate proc = Some (out, err, 0) \<and> utf8_valid out \<and> json_loads out = Inr v \<longrightarrow>
      fst (list_inventory path_exists json_loads os f) = Some (Inr (Parsed v)))"
  by (cases x) (simp_all add: list_inventory_def decode_def)

text \<open>A missing file; a failing command; a command whose output is not JSON.\<close>

theorem list_inventory_results_witness:
  "list_inventory (\<lambda>p. False)
     (\<lambda>t. Inl (Raised ''JSONDecodeError'' ''Expecting value'') :: py_exception + unit)
     (\<lambda>cmd env. Inr \<lparr>communicate = Some (''not json'', ''boom'', 0)\<rparr>) ''hosts.ini'' =
     (Some (Inr (Dict [(''error'', PyStr ''Inventory file not found: hosts.ini'')])), []) \<and>
   fst (list_inventory (\<lambda>p. True)
     (\<lambda>t. Inl (Raised ''JSONDecodeError'' ''Expecting value'') :: py_exception + unit)
     (\<lambda>cmd env. Inr \<lparr>communicate = Some (''{}'', ''boom'', 4)\<rparr>) ''hosts.ini'') =
     Some (Inr (Dict [(''stderr'', PyStr ''boom''), (''returncode'', PyInt 4)])) \<and>
   fst (list_inventory (\<lambda>p. True)
     (\<lambda>t. Inl (Raised ''JSONDecodeError'' ''Expecting value'') :: py_exception + unit)
     (\<lambda>cmd env. Inr \<lparr>communicate = Some (''not json'', ''boom'', 0)\<rparr>) ''hosts.ini'') =
     Some (Inr (Dict [(''output'', PyStr ''not json'')]))"
proof -
  let ?l = "\<lambda>t :: string. (Inl (Raised ''JSONDecodeError'' ''Expecting value'') :: py_exception + unit)"
  show ?thesis
    using list_inventory_results
        [where path_exists = "\<lambda>p. False" and f = "''hosts.ini''" and json_loads = ?l and
          os = "\<lambda>cmd env. Inr \<lparr>communicate = Some (''not json'', ''boom'', 0)\<rparr>"]
      list_inventory_results
        [where path_exists = "\<lambda>p. True" and f = "''hosts.ini''" and json_loads = ?l and
          os = "\<lambda>cmd env. Inr \<lparr>communicate = Some (''{}'', ''boom'', 4)\<rparr>" and
          proc = "\<lparr>communicate = Some (''{}'', ''boom'', 4)\<rparr>" and out = "''{}''" and
          err = "''boom''" and rc = 4]
      list_inventory_results
        [where path_exists = "\<lambda>p. True" and f = "''hosts.ini''" and json_loads = ?l and
          os = "\<lambda>cmd env. Inr \<lparr>communicate = Some (''not json'', ''boom'', 0)\<rparr>" and
          proc = "\<lparr>communicate = Some (''not json'', ''boom'', 0)\<rparr>" and
          out = "''not json''" and err = "''boom''" and msg = "''Expecting value''"]
    by (simp add: byte_def)
qed

text \<open>
  Two runs with an existing inventory file. In the first \<open>ansible-inventory\<close> cannot be
  launched. In the second it exits with status 0 after writing a hundred thousand
  opening brackets, which is not JSON, and \<open>json.loads\<close> raises \<open>RecursionError\<close>. The
  endpoint raises in both.
\<close>

theorem list_inventory_results_counterexample:
  "fst (list_inventory (\<lambda>p. True) (\<lambda>t. Inr () :: py_exception + unit)
     (\<lambda>cmd env. Inl (Raised ''FileNotFoundError'' ''No such file or directory''))
     ''inventory.ini'') =
     Some (Inl (Raised ''FileNotFoundError'' ''No such file or directory'')) \<and>
   fst (list_inventory (\<lambda>p. True)
     (\<lambda>t. Inl (Raised ''RecursionError'' ''maximum recursion depth exceeded'')
        :: py_exception + unit)
     (\<lambda>cmd env. Inr \<lparr>communicate = Some (replicate 100000 (CHR ''[''), '''', 0)\<rparr>)
     ''inventory.ini'') =
     Some (Inl (Raised ''RecursionError'' ''maximum recursion depth exceeded''))"
proof -
  have v: "utf8_valid (replicate n (CHR ''['')) " for n
    by (induction n) (simp_all add: byte_def)
  show ?thesis
    by (simp add: list_inventory_def decode_def v)
qed

end
